theory Spec2Isabelle
  imports Main
begin

section \<open>The greeter server of \<open>app/app.py\<close>\<close>

text \<open>
  The program is one Python module: a module-level assignment of \<open>PORT\<close>, a request
  handler class \<open>SimpleHandler\<close> with the methods \<open>do_GET\<close> and \<open>log_message\<close>, and
  \<open>run_server\<close>. Everything else it does is done by the interpreter's built-ins and by the
  standard library classes it instantiates and inherits from (\<open>int\<close>, \<open>os.environ.get\<close>,
  \<open>print\<close>, \<open>HTTPServer\<close>, \<open>BaseHTTPRequestHandler\<close>). The first subsections embed those
  parts of CPython 3.11 that the module calls; the subsection on \<open>app.py\<close> embeds the module
  itself, line by line, on top of them.

  Python strings are modelled as \<open>string\<close>: a list of code points below 256. Bytes objects
  are modelled by the same type.
\<close>

subsection \<open>Exceptions and control flow\<close>

datatype errno = EADDRINUSE | EACCES

datatype error =
    ValueError
  | TypeError
  | OverflowError
  | OSError errno
  | Unmodelled

text \<open>
  A statement either completes in a new state or raises in the state reached so far.
  \<open>and_then\<close> is sequencing of two statements: an exception of the first skips the second.
\<close>

datatype 's result = Ok 's | Exn error 's

fun and_then :: "'s result \<Rightarrow> ('s \<Rightarrow> 's result) \<Rightarrow> 's result" where
  "and_then (Ok s) f = f s"
| "and_then (Exn e s) f = Exn e s"

fun state_of :: "'s result \<Rightarrow> 's" where
  "state_of (Ok s) = s"
| "state_of (Exn e s) = s"

subsection \<open>Built-ins: \<open>str\<close> and \<open>int\<close>\<close>

definition digit_char :: "nat \<Rightarrow> char" where
  "digit_char d = char_of (48 + d)"

definition is_digit :: "char \<Rightarrow> bool" where
  "is_digit c = (48 \<le> (of_char c :: nat) \<and> (of_char c :: nat) \<le> 57)"

definition digit_value :: "char \<Rightarrow> int" where
  "digit_value c = int (of_char c) - 48"

fun str_nat :: "nat \<Rightarrow> string" where
  "str_nat n = (if n < 10 then [digit_char n] else str_nat (n div 10) @ [digit_char (n mod 10)])"

declare str_nat.simps [simp del]

text \<open>\<open>str(i)\<close> on an \<open>int\<close> (also what an f-string writes for \<open>{i}\<close>).\<close>

definition py_str :: "int \<Rightarrow> string" where
  "py_str i = (if i < 0 then CHR ''-'' # str_nat (nat (- i)) else str_nat (nat i))"

text \<open>
  \<open>int(s)\<close> on a string, base 10, as \<open>PyLong_FromUnicodeObject\<close> and \<open>PyLong_FromString\<close>
  compute it. A string with a non-ASCII character is first rewritten: Unicode white space
  becomes a blank, anything else beyond ASCII becomes \<open>?\<close> (in the range modelled no
  non-ASCII character is a decimal digit; CPython cuts the string after the first \<open>?\<close>,
  which is rejected either way). The scanner then skips the white space of \<open>Py_ISSPACE\<close>,
  takes one optional sign, refuses a leading underscore, reads digits with single
  underscores between them, refuses more than \<open>max_str_digits\<close> digits (4300 by default),
  skips trailing white space and requires the end of the string. Every refusal is a
  \<open>ValueError\<close>.
\<close>

definition Py_ISSPACE :: "char \<Rightarrow> bool" where
  "Py_ISSPACE c = ((9 \<le> (of_char c :: nat) \<and> (of_char c :: nat) \<le> 13) \<or> (of_char c :: nat) = 32)"

definition Py_UNICODE_ISSPACE :: "char \<Rightarrow> bool" where
  "Py_UNICODE_ISSPACE c =
     (let n = (of_char c :: nat)
      in (9 \<le> n \<and> n \<le> 13) \<or> (28 \<le> n \<and> n \<le> 32) \<or> n = 133 \<or> n = 160)"

definition to_ascii_char :: "char \<Rightarrow> char" where
  "to_ascii_char c =
     (if (of_char c :: nat) < 127 then c
      else if Py_UNICODE_ISSPACE c then CHR '' ''
      else CHR ''?'')"

definition TransformDecimalAndSpaceToASCII :: "string \<Rightarrow> string" where
  "TransformDecimalAndSpaceToASCII s =
     (if list_all (\<lambda>c. (of_char c :: nat) < 128) s then s else map to_ascii_char s)"

definition max_str_digits :: nat where
  "max_str_digits = 4300"

text \<open>
  The digit loop: \<open>prev\<close> is the character read last, \<open>n\<close> the number of digits read,
  \<open>acc\<close> their value. It stops at the first character that is neither a digit nor an
  underscore and returns the rest; two underscores in a row are refused.
\<close>

fun scan_digits :: "string \<Rightarrow> char \<Rightarrow> nat \<Rightarrow> int \<Rightarrow> (char \<times> nat \<times> int \<times> string) option" where
  "scan_digits [] prev n acc = Some (prev, n, acc, [])"
| "scan_digits (c # cs) prev n acc =
     (if c = CHR ''_'' then (if prev = CHR ''_'' then None else scan_digits cs c n acc)
      else if is_digit c then scan_digits cs c (Suc n) (acc * 10 + digit_value c)
      else Some (prev, n, acc, c # cs))"

definition take_sign :: "string \<Rightarrow> int \<times> string" where
  "take_sign s =
     (case s of
        [] \<Rightarrow> (1, [])
      | c # cs \<Rightarrow> if c = CHR ''+'' then (1, cs) else if c = CHR ''-'' then (- 1, cs) else (1, s))"

definition PyLong_FromString :: "string \<Rightarrow> error + int" where
  "PyLong_FromString s =
     (case take_sign (dropWhile Py_ISSPACE s) of (sign, body) \<Rightarrow>
        if take 1 body = ''_'' then Inl ValueError
        else (case scan_digits body (CHR 0x00) 0 0 of
            None \<Rightarrow> Inl ValueError
          | Some (prev, n, acc, rest) \<Rightarrow>
              if prev = CHR ''_'' \<or> n = 0 then Inl ValueError
              else if max_str_digits < n then Inl ValueError
              else if dropWhile Py_ISSPACE rest \<noteq> [] then Inl ValueError
              else Inr (sign * acc)))"

text \<open>
  The values the module passes around at line 8: \<open>os.environ.get\<close> returns the variable's
  string or the default it was given, here the \<open>int\<close> 8080; \<open>int\<close> returns an \<open>int\<close>
  argument as it is and parses a string.
\<close>

datatype pyval = PyStr string | PyInt int

fun py_int :: "pyval \<Rightarrow> error + int" where
  "py_int (PyInt i) = Inr i"
| "py_int (PyStr s) = PyLong_FromString (TransformDecimalAndSpaceToASCII s)"

definition environ_get :: "(string \<rightharpoonup> string) \<Rightarrow> string \<Rightarrow> pyval \<Rightarrow> pyval" where
  "environ_get env key dflt = (case env key of None \<Rightarrow> dflt | Some v \<Rightarrow> PyStr v)"

subsection \<open>Built-ins: \<open>repr\<close> and the \<open>%\<close> operator on strings\<close>

text \<open>
  \<open>repr(s)\<close> on a string: single quotes, unless the string has a single quote and no
  double quote; the quote in use and the backslash are escaped; tab, line feed and
  carriage return have their letters; every other character that is not printable is
  written \<open>\xhh\<close>.
\<close>

definition hex_digit :: "nat \<Rightarrow> char" where
  "hex_digit d = (if d < 10 then char_of (48 + d) else char_of (87 + d))"

definition repr_quote :: "string \<Rightarrow> char" where
  "repr_quote s = (if CHR 0x27 \<in> set s \<and> CHR 0x22 \<notin> set s then CHR 0x22 else CHR 0x27)"

definition repr_char :: "char \<Rightarrow> char \<Rightarrow> string" where
  "repr_char q c =
     (let n = (of_char c :: nat);
          hex = [CHR 0x5C, CHR ''x'', hex_digit (n div 16), hex_digit (n mod 16)]
      in if c = q \<or> c = CHR 0x5C then [CHR 0x5C, c]
         else if n = 9 then [CHR 0x5C, CHR ''t'']
         else if n = 10 then [CHR 0x5C, CHR ''n'']
         else if n = 13 then [CHR 0x5C, CHR ''r'']
         else if n < 32 \<or> n = 127 then hex
         else if n < 127 then [c]
         else if n \<le> 160 \<or> n = 173 then hex
         else [c])"

definition py_repr :: "string \<Rightarrow> string" where
  "py_repr s = (let q = repr_quote s in q # concat (map (repr_char q) s) @ [q])"

text \<open>
  \<open>format % args\<close> with a tuple of arguments. The conversions \<open>%s\<close>, \<open>%r\<close>, \<open>%d\<close> and
  \<open>%%\<close> are modelled, without flags, width or precision; a format that uses anything
  else is answered \<open>Unmodelled\<close>. Too few or too many arguments are a \<open>TypeError\<close>, as is
  \<open>%d\<close> on a string; a format that ends in a lone \<open>%\<close> is a \<open>ValueError\<close>.
\<close>

fun convert :: "char \<Rightarrow> pyval \<Rightarrow> error + string" where
  "convert c (PyInt i) = Inr (py_str i)"
| "convert c (PyStr s) =
     (if c = CHR ''s'' then Inr s else if c = CHR ''r'' then Inr (py_repr s) else Inl TypeError)"

fun percent_format :: "string \<Rightarrow> pyval list \<Rightarrow> error + string" where
  "percent_format [] args = (if args = [] then Inr [] else Inl TypeError)"
| "percent_format (c # fmt) args =
     (if c \<noteq> CHR ''%'' then map_sum id ((#) c) (percent_format fmt args)
      else (case fmt of
          [] \<Rightarrow> Inl ValueError
        | d # fmt' \<Rightarrow>
            if d = CHR ''%'' then map_sum id ((#) d) (percent_format fmt' args)
            else if d = CHR ''s'' \<or> d = CHR ''r'' \<or> d = CHR ''d'' then
              (case args of
                 [] \<Rightarrow> Inl TypeError
               | a # args' \<Rightarrow>
                   (case convert d a of
                      Inl e \<Rightarrow> Inl e
                    | Inr t \<Rightarrow> map_sum id ((@) t) (percent_format fmt' args')))
            else Inl Unmodelled))"

subsection \<open>The process and its surroundings\<close>

text \<open>
  What the process can observe and change outside itself: the environment variables, the
  TCP ports of the host (\<open>refused\<close> gives, for a port, the error with which the kernel
  would refuse to bind it; \<open>ephemeral\<close> is the port the kernel assigns when asked for port
  0), the standard output as the list of lines written, and the sequence of calls made
  to the environment and to the socket layer. A running module has, in addition, its
  global \<open>PORT\<close>, the port its server socket is bound to, and the bytes it has written to
  each connection it accepted.
\<close>

datatype event =
    Environ_get string
  | Socket_create
  | Socket_bind int
  | Socket_listen
  | Socket_close

datatype wire =
    Status_line string int string
  | Header_line string string
  | End_of_headers
  | Body string

record world =
  environ :: "string \<rightharpoonup> string"
  refused :: "int \<rightharpoonup> errno"
  ephemeral :: int
  trace :: "event list"
  stdout :: "string list"

record process = world +
  PORT :: int
  server_port :: "int option"
  connections :: "wire list list"

text \<open>\<open>print(s)\<close> writes one line.\<close>

definition print :: "string \<Rightarrow> process \<Rightarrow> process" where
  "print s p = p\<lparr>stdout := stdout p @ [s]\<rparr>"

subsection \<open>\<open>socketserver\<close>: creating the listening socket\<close>

text \<open>
  \<open>socket.bind(('', port))\<close>: a port outside 0..65535 is an \<open>OverflowError\<close>; a port the
  kernel refuses is an \<open>OSError\<close>; port 0 binds the port the kernel picks.
\<close>

definition server_bind :: "int \<Rightarrow> process \<Rightarrow> process result" where
  "server_bind port p =
     (let p1 = p\<lparr>trace := trace p @ [Socket_bind port]\<rparr>;
          actual = (if port = 0 then ephemeral p else port)
      in if port < 0 \<or> 65535 < port then Exn OverflowError p1
         else (case refused p actual of
             Some e \<Rightarrow> Exn (OSError e) p1
           | None \<Rightarrow> Ok (p1\<lparr>refused := (refused p)(actual \<mapsto> EADDRINUSE),
                           server_port := Some actual\<rparr>)))"

text \<open>
  \<open>HTTPServer(server_address, handler)\<close>, that is \<open>TCPServer.__init__\<close>: create the socket,
  \<open>server_bind\<close>, \<open>server_activate\<close>; an exception of either closes the socket and is
  raised again.
\<close>

definition HTTPServer :: "int \<Rightarrow> process \<Rightarrow> process result" where
  "HTTPServer port p =
     (case server_bind port (p\<lparr>trace := trace p @ [Socket_create]\<rparr>) of
        Exn e p1 \<Rightarrow> Exn e (p1\<lparr>trace := trace p1 @ [Socket_close]\<rparr>)
      | Ok p1 \<Rightarrow> Ok (p1\<lparr>trace := trace p1 @ [Socket_listen]\<rparr>))"

subsection \<open>\<open>http.server\<close>: the request handler base class\<close>

text \<open>
  A request is what \<open>parse_request\<close> has left in the handler object when it returns true,
  together with the values the library's own methods give while the request is handled:
  \<open>sys_version\<close> (the interpreter's version, part of the \<open>Server\<close> header),
  \<open>date_time_string\<close> (the clock, for the \<open>Date\<close> header) and \<open>error_page\<close> (the encoded
  HTML page that \<open>error_message_format\<close> renders for a code, a message and an explanation).
  Requests that \<open>parse_request\<close> refuses never reach the method dispatch and are not
  modelled. The handler object adds the header buffer and the output file of the
  connection; the connection bookkeeping (\<open>close_connection\<close>) is left out.
\<close>

record request =
  client_address :: "string \<times> nat"
  requestline :: string
  command :: string
  path :: string
  request_version :: string
  headers :: "(string \<times> string) list"
  sys_version :: string
  date_time_string :: string
  error_page :: "int \<Rightarrow> string \<Rightarrow> string \<Rightarrow> string"

record handler = request +
  headers_buffer :: "wire list"
  wfile :: "wire list"

type_synonym state = "handler \<times> process"

definition new_handler :: "request \<Rightarrow> handler" where
  "new_handler r =
     \<lparr>client_address = client_address r, requestline = requestline r, command = command r,
      path = path r, request_version = request_version r, headers = headers r,
      sys_version = sys_version r, date_time_string = date_time_string r,
      error_page = error_page r, headers_buffer = [], wfile = []\<rparr>"

definition protocol_version :: string where
  "protocol_version = ''HTTP/1.0''"

definition server_version :: string where
  "server_version = ''BaseHTTP/0.6''"

definition error_content_type :: string where
  "error_content_type = ''text/html;charset=utf-8''"

text \<open>The two entries of the \<open>responses\<close> table that this program looks up.\<close>

definition responses :: "int \<rightharpoonup> string \<times> string" where
  "responses =
     [200 \<mapsto> (''OK'', ''Request fulfilled, document follows''),
      501 \<mapsto> (''Not Implemented'', ''Server does not support this operation'')]"

definition address_string :: "handler \<Rightarrow> string" where
  "address_string self = fst (client_address self)"

definition version_string :: "handler \<Rightarrow> string" where
  "version_string self = server_version @ '' '' @ sys_version self"

text \<open>
  The three methods that fill the header buffer write nothing for a request of version
  HTTP/0.9, which has neither a status line nor headers.
\<close>

definition send_response_only :: "int \<Rightarrow> string option \<Rightarrow> handler \<Rightarrow> handler" where
  "send_response_only code message self =
     (if request_version self \<noteq> ''HTTP/0.9'' then
        (let message' =
               (case message of
                  Some m \<Rightarrow> m
                | None \<Rightarrow> (case responses code of Some (short, long) \<Rightarrow> short | None \<Rightarrow> []))
         in self\<lparr>headers_buffer :=
                    headers_buffer self @ [Status_line protocol_version code message']\<rparr>)
      else self)"

definition send_header :: "string \<Rightarrow> string \<Rightarrow> handler \<Rightarrow> handler" where
  "send_header keyword value self =
     (if request_version self \<noteq> ''HTTP/0.9'' then
        self\<lparr>headers_buffer := headers_buffer self @ [Header_line keyword value]\<rparr>
      else self)"

definition flush_headers :: "handler \<Rightarrow> handler" where
  "flush_headers self = self\<lparr>wfile := wfile self @ headers_buffer self, headers_buffer := []\<rparr>"

definition end_headers :: "handler \<Rightarrow> handler" where
  "end_headers self =
     (if request_version self \<noteq> ''HTTP/0.9'' then
        flush_headers (self\<lparr>headers_buffer := headers_buffer self @ [End_of_headers]\<rparr>)
      else self)"

definition wfile_write :: "string \<Rightarrow> handler \<Rightarrow> handler" where
  "wfile_write b self = self\<lparr>wfile := wfile self @ [Body b]\<rparr>"




text \<open>Reading a response back: its status codes, the values of a header, its body.\<close>

fun status_codes :: "wire list \<Rightarrow> int list" where
  "status_codes [] = []"
| "status_codes (Status_line version code message # ws) = code # status_codes ws"
| "status_codes (w # ws) = status_codes ws"

fun header_values :: "string \<Rightarrow> wire list \<Rightarrow> string list" where
  "header_values k [] = []"
| "header_values k (Header_line keyword value # ws) =
     (if keyword = k then value # header_values k ws else header_values k ws)"
| "header_values k (w # ws) = header_values k ws"

fun body_of :: "wire list \<Rightarrow> string" where
  "body_of [] = []"
| "body_of (Body b # ws) = b @ body_of ws"
| "body_of (w # ws) = body_of ws"

subsection \<open>\<open>app.py\<close>: \<open>SimpleHandler.log_message\<close>\<close>

text \<open>
  \<^verbatim>\<open>print(f"{self.address_string()} - {format % args}")\<close>
  The override replaces the library's \<open>log_message\<close>, so every log call of the library
  ends here.
\<close>

definition log_message :: "string \<Rightarrow> pyval list \<Rightarrow> state \<Rightarrow> state result" where
  "log_message format args s =
     (case s of (self, p) \<Rightarrow>
        (case percent_format format args of
           Inl e \<Rightarrow> Exn e s
         | Inr message \<Rightarrow> Ok (self, print (address_string self @ '' - '' @ message) p)))"

subsection \<open>\<open>http.server\<close>: logging and sending responses\<close>

definition log_request :: "int \<Rightarrow> string \<Rightarrow> state \<Rightarrow> state result" where
  "log_request code size' s =
     log_message ([CHR 0x22] @ ''%s'' @ [CHR 0x22] @ '' %s %s'')
       [PyStr (requestline (fst s)), PyStr (py_str code), PyStr size'] s"

definition log_error :: "string \<Rightarrow> pyval list \<Rightarrow> state \<Rightarrow> state result" where
  "log_error format args s = log_message format args s"

definition on_handler :: "(handler \<Rightarrow> handler) \<Rightarrow> state \<Rightarrow> state result" where
  "on_handler f s = Ok (f (fst s), snd s)"

definition send_response :: "int \<Rightarrow> string option \<Rightarrow> state \<Rightarrow> state result" where
  "send_response code message s =
     and_then (log_request code ''-'' s) (\<lambda>s.
     and_then (on_handler (send_response_only code message) s) (\<lambda>s.
     and_then (on_handler (send_header ''Server'' (version_string (fst s))) s) (\<lambda>s.
     on_handler (send_header ''Date'' (date_time_string (fst s))) s)))"

definition send_error :: "int \<Rightarrow> string option \<Rightarrow> string option \<Rightarrow> state \<Rightarrow> state result" where
  "send_error code message explain s =
     (let (shortmsg, longmsg) =
            (case responses code of Some r \<Rightarrow> r | None \<Rightarrow> (''???'', ''???''));
          message = (case message of None \<Rightarrow> shortmsg | Some m \<Rightarrow> m);
          explain = (case explain of None \<Rightarrow> longmsg | Some x \<Rightarrow> x);
          body = (if 200 \<le> code \<and> code \<notin> {204, 205, 304}
                  then Some (error_page (fst s) code message explain) else None)
      in
     and_then (log_error ''code %d, message %s'' [PyInt code, PyStr message] s) (\<lambda>s.
     and_then (send_response code (Some message) s) (\<lambda>s.
     and_then (on_handler (send_header ''Connection'' ''close'') s) (\<lambda>s.
     and_then (case body of
                 None \<Rightarrow> Ok s
               | Some b \<Rightarrow>
                   and_then (on_handler (send_header ''Content-Type'' error_content_type) s) (\<lambda>s.
                   on_handler (send_header ''Content-Length'' (py_str (int (length b)))) s)) (\<lambda>s.
     and_then (on_handler end_headers s) (\<lambda>s.
     (case body of
        None \<Rightarrow> Ok s
      | Some b \<Rightarrow> if command (fst s) \<noteq> ''HEAD'' \<and> b \<noteq> [] then on_handler (wfile_write b) s
                  else Ok s)))))))"

subsection \<open>\<open>app.py\<close>: \<open>SimpleHandler.do_GET\<close>\<close>

text \<open>
  \<^verbatim>\<open>
  def do_GET(self):
      self.send_response(200)
      self.send_header('Content-Type', 'text/plain')
      self.end_headers()
      self.wfile.write(b'Hello from secure CI/CD with SLSA + Cosign (Python Edition)!\n')
  \<close>
\<close>

definition greeting :: string where
  "greeting = ''Hello from secure CI/CD with SLSA + Cosign (Python Edition)!'' @ [CHR 0x0A]"

definition do_GET :: "state \<Rightarrow> state result" where
  "do_GET s =
     and_then (send_response 200 None s) (\<lambda>s.
     and_then (on_handler (send_header ''Content-Type'' ''text/plain'') s) (\<lambda>s.
     and_then (on_handler end_headers s) (\<lambda>s.
     on_handler (wfile_write greeting) s)))"

text \<open>
  The attributes of a \<open>SimpleHandler\<close> whose name starts with \<open>do_\<close>: the class defines
  \<open>do_GET\<close>, and its base classes define none.
\<close>

definition SimpleHandler_getattr :: "string \<Rightarrow> (state \<Rightarrow> state result) option" where
  "SimpleHandler_getattr mname = (if mname = ''do_GET'' then Some do_GET else None)"

subsection \<open>\<open>http.server\<close>: dispatching a request\<close>

text \<open>
  \<open>handle_one_request\<close> after \<open>parse_request\<close> has succeeded: the method named \<open>do_\<close> plus
  the request's command is called if the handler has it, and the request is answered
  with error 501 if not.
\<close>

definition handle_one_request :: "state \<Rightarrow> state result" where
  "handle_one_request s =
     (let mname = ''do_'' @ command (fst s)
      in case SimpleHandler_getattr mname of
           None \<Rightarrow>
             send_error 501
               (Some (''Unsupported method ('' @ py_repr (command (fst s)) @ '')'')) None s
         | Some method \<Rightarrow> method s)"

text \<open>
  One accepted connection: a new handler object handles its request. An exception of the
  handler is reported on the standard error stream by the server, which carries on; what
  was written before it stays written. \<open>serve_forever\<close> does not return: the model gives
  the state of the process after the connections accepted so far.
\<close>

definition finish_request :: "request \<Rightarrow> process \<Rightarrow> process" where
  "finish_request r p =
     (case state_of (handle_one_request (new_handler r, p)) of (self, p') \<Rightarrow>
        p'\<lparr>connections := connections p' @ [wfile self]\<rparr>)"

fun serve_forever :: "request list \<Rightarrow> process \<Rightarrow> process" where
  "serve_forever [] p = p"
| "serve_forever (r # rs) p = serve_forever rs (finish_request r p)"

subsection \<open>\<open>app.py\<close>: the module\<close>

text \<open>
  \<^verbatim>\<open>PORT = int(os.environ.get('PORT', 8080))\<close>
  runs when the module is loaded. An exception here ends the process before \<open>run_server\<close>
  is defined or called.
\<close>

definition module_init :: "world \<Rightarrow> error \<times> world + process" where
  "module_init w =
     (let w1 = w\<lparr>trace := trace w @ [Environ_get ''PORT'']\<rparr>
      in case py_int (environ_get (environ w) ''PORT'' (PyInt 8080)) of
           Inl e \<Rightarrow> Inl (e, w1)
         | Inr n \<Rightarrow>
             Inr \<lparr>environ = environ w1, refused = refused w1, ephemeral = ephemeral w1,
                  trace = trace w1, stdout = stdout w1,
                  PORT = n, server_port = None, connections = []\<rparr>)"

text \<open>
  \<^verbatim>\<open>
  def run_server():
      server_address = ('', PORT)
      httpd = HTTPServer(server_address, SimpleHandler)
      print(f'Starting Python web server on port {PORT}...')
      httpd.serve_forever()
  \<close>
  The result \<open>Ok\<close> stands for a process that is inside \<open>serve_forever\<close> and has handled
  the given requests.
\<close>

definition run_server :: "request list \<Rightarrow> process \<Rightarrow> process result" where
  "run_server rs p =
     and_then (HTTPServer (PORT p) p) (\<lambda>p.
     and_then (Ok (print (''Starting Python web server on port '' @ py_str (PORT p) @ ''...'') p)) (\<lambda>p.
     Ok (serve_forever rs p)))"

text \<open>
  The module run as a script. An exception that nothing catches ends the interpreter
  with exit status 1; a serving process has no exit status.
\<close>

datatype outcome =
    Crash_at_import error world
  | Crash_at_startup error process
  | Serving process

definition main :: "world \<Rightarrow> request list \<Rightarrow> outcome" where
  "main w rs =
     (case module_init w of
        Inl (e, w') \<Rightarrow> Crash_at_import e w'
      | Inr p \<Rightarrow>
          (case run_server rs p of
             Exn e p' \<Rightarrow> Crash_at_startup e p'
           | Ok p' \<Rightarrow> Serving p'))"

fun exit_status :: "outcome \<Rightarrow> nat option" where
  "exit_status (Crash_at_import e w) = Some 1"
| "exit_status (Crash_at_startup e p) = Some 1"
| "exit_status (Serving p) = None"

fun calls :: "outcome \<Rightarrow> event list" where
  "calls (Crash_at_import e w) = trace w"
| "calls (Crash_at_startup e p) = trace p"
| "calls (Serving p) = trace p"

fun printed :: "outcome \<Rightarrow> string list" where
  "printed (Crash_at_import e w) = stdout w"
| "printed (Crash_at_startup e p) = stdout p"
| "printed (Serving p) = stdout p"

subsection \<open>What a client and the log collector see\<close>

text \<open>
  The bytes written to the connection of one request, and the standard output after it,
  when the request is handled by a process in state \<open>p\<close>.
\<close>

definition response :: "request \<Rightarrow> process \<Rightarrow> wire list" where
  "response r p = wfile (fst (state_of (handle_one_request (new_handler r, p))))"

definition logged :: "request \<Rightarrow> process \<Rightarrow> string list" where
  "logged r p = stdout (snd (state_of (handle_one_request (new_handler r, p))))"

subsection \<open>Names for the pieces of a response and of the log\<close>

definition access_line :: "handler \<Rightarrow> int \<Rightarrow> string" where
  "access_line h code =
     address_string h @ '' - '' @ [CHR 0x22] @ requestline h @ [CHR 0x22] @ '' '' @ py_str code @ '' -''"

definition error_line :: "handler \<Rightarrow> string \<Rightarrow> string" where
  "error_line h m = address_string h @ '' - code 501, message '' @ m"

definition unsupported :: "string \<Rightarrow> string" where
  "unsupported c = ''Unsupported method ('' @ py_repr c @ '')''"

definition ok_head :: "handler \<Rightarrow> wire list" where
  "ok_head h =
     [Status_line protocol_version 200 ''OK'',
      Header_line ''Server'' (version_string h),
      Header_line ''Date'' (date_time_string h),
      Header_line ''Content-Type'' ''text/plain'',
      End_of_headers]"

definition error_head :: "handler \<Rightarrow> string \<Rightarrow> string \<Rightarrow> wire list" where
  "error_head h message page =
     [Status_line protocol_version 501 message,
      Header_line ''Server'' (version_string h),
      Header_line ''Date'' (date_time_string h),
      Header_line ''Connection'' ''close'',
      Header_line ''Content-Type'' error_content_type,
      Header_line ''Content-Length'' (py_str (int (length page))),
      End_of_headers]"

definition error_body :: "handler \<Rightarrow> string \<Rightarrow> wire list" where
  "error_body h page = (if command h \<noteq> ''HEAD'' \<and> page \<noteq> [] then [Body page] else [])"

text \<open>
  The process as the module's first statement leaves it when it resolves the port to \<open>n\<close>,
  and the line \<open>run_server\<close> prints once the socket listens.
\<close>

definition loaded :: "world \<Rightarrow> int \<Rightarrow> process" where
  "loaded w n =
     \<lparr>environ = environ w, refused = refused w, ephemeral = ephemeral w,
      trace = trace w @ [Environ_get ''PORT''], stdout = stdout w,
      PORT = n, server_port = None, connections = []\<rparr>"

definition banner :: "int \<Rightarrow> string" where
  "banner n = ''Starting Python web server on port '' @ py_str n @ ''...''"

subsection \<open>The claims' valid integer string\<close>

text \<open>
  This definition is not taken from the program: it spells out what the claims call a
  valid integer string, after the documentation of \<open>int\<close>: decimal digits with single
  underscores between digits, an optional sign in front of them with nothing in between,
  white space around the whole. White space is the blank, tab, line feed, vertical tab,
  form feed, carriage return, next line (U+0085) and no-break space (U+00A0).
  \<open>digits_tail\<close> recognises what may follow a digit: more digits, an underscore and a
  digit, or white space up to the end.
\<close>

definition whitespace :: "char \<Rightarrow> bool" where
  "whitespace c = (Py_ISSPACE c \<or> (of_char c :: nat) = 133 \<or> (of_char c :: nat) = 160)"

fun digits_tail :: "string \<Rightarrow> bool" where
  "digits_tail [] = True"
| "digits_tail (c # cs) =
     (if is_digit c then digits_tail cs
      else if c = CHR ''_'' then (case cs of [] \<Rightarrow> False | d # ds \<Rightarrow> is_digit d \<and> digits_tail ds)
      else list_all whitespace (c # cs))"

definition digitpart :: "string \<Rightarrow> bool" where
  "digitpart s = (case s of [] \<Rightarrow> False | d # ds \<Rightarrow> is_digit d \<and> digits_tail ds)"

definition valid_integer_string :: "string \<Rightarrow> bool" where
  "valid_integer_string s =
     (case dropWhile whitespace s of
        [] \<Rightarrow> False
      | c # cs \<Rightarrow> if c = CHR ''+'' \<or> c = CHR ''-'' then digitpart cs else digitpart (c # cs))"

text \<open>
  What the proofs need of a rewriting of characters that comes before the scanner: it
  keeps digits, underscores and signs apart from everything else and makes white space of
  white space only.
\<close>

definition char_map_ok :: "(char \<Rightarrow> char) \<Rightarrow> bool" where
  "char_map_ok g =
     (\<forall>c. is_digit (g c) = is_digit c \<and> (g c = CHR ''_'') = (c = CHR ''_'') \<and>
          (g c = CHR ''+'') = (c = CHR ''+'') \<and> (g c = CHR ''-'') = (c = CHR ''-'') \<and>
          (Py_ISSPACE (g c) \<longrightarrow> whitespace c))"

subsection \<open>Example inputs\<close>

text \<open>
  A request for \<open>/\<close> as a client on 10.0.0.7 sends it, a process that serves on the
  default port, and a host on which nothing is bound and no variable is set. The error
  page of the examples is the message and its explanation without markup.
\<close>

definition plain_error_page :: "int \<Rightarrow> string \<Rightarrow> string \<Rightarrow> string" where
  "plain_error_page code message explain = message @ '': '' @ explain"

abbreviation get_root :: request where
  "get_root \<equiv>
     \<lparr>client_address = (''10.0.0.7'', 51234), requestline = ''GET / HTTP/1.1'',
      command = ''GET'', path = ''/'', request_version = ''HTTP/1.1'',
      headers = [(''Host'', ''greeter''), (''Accept'', ''application/json'')],
      sys_version = ''Python/3.11.10'', date_time_string = ''Wed, 04 Nov 2026 08:00:00 GMT'',
      error_page = plain_error_page\<rparr>"

abbreviation post_root :: request where
  "post_root \<equiv>
     \<lparr>client_address = (''10.0.0.7'', 51234), requestline = ''POST / HTTP/1.1'',
      command = ''POST'', path = ''/'', request_version = ''HTTP/1.1'',
      headers = [(''Host'', ''greeter''), (''Content-Length'', ''0'')],
      sys_version = ''Python/3.11.10'', date_time_string = ''Wed, 04 Nov 2026 08:00:00 GMT'',
      error_page = plain_error_page\<rparr>"

abbreviation serving :: process where
  "serving \<equiv>
     \<lparr>environ = Map.empty, refused = [8080 \<mapsto> EADDRINUSE], ephemeral = 49152,
      trace = [Environ_get ''PORT'', Socket_create, Socket_bind 8080, Socket_listen],
      stdout = [''Starting Python web server on port 8080...''],
      PORT = 8080, server_port = Some 8080, connections = []\<rparr>"

abbreviation quiet_host :: world where
  "quiet_host \<equiv>
     \<lparr>environ = Map.empty, refused = Map.empty, ephemeral = 49152, trace = [], stdout = []\<rparr>"

text \<open>
  A host on which another process holds port 8080, and the process that a second
  instance of the server is after loading the module there.
\<close>

abbreviation busy_host :: world where
  "busy_host \<equiv>
     \<lparr>environ = Map.empty, refused = [8080 \<mapsto> EADDRINUSE], ephemeral = 49152,
      trace = [], stdout = []\<rparr>"

abbreviation second_instance :: process where
  "second_instance \<equiv>
     \<lparr>environ = Map.empty, refused = [8080 \<mapsto> EADDRINUSE], ephemeral = 49152,
      trace = [Environ_get ''PORT''], stdout = [],
      PORT = 8080, server_port = None, connections = []\<rparr>"

section \<open>Closed forms of the operations\<close>

lemma py_str_200: "py_str 200 = ''200''" by code_simp

lemma py_str_501: "py_str 501 = ''501''" by code_simp

lemma log_request_eq:
  "log_request code ''-'' (h, p) = Ok (h, print (access_line h code) p)"
  by (simp add: log_request_def log_message_def access_line_def)

lemma log_error_code_message:
  "log_error ''code %d, message %s'' [PyInt code, PyStr m] (h, p) =
     Ok (h, print (address_string h @ '' - code '' @ py_str code @ '', message '' @ m) p)"
  by (simp add: log_error_def log_message_def)

lemma send_response_only_09:
  "request_version h = ''HTTP/0.9'' \<Longrightarrow> send_response_only code message h = h"
  by (simp add: send_response_only_def)

lemma send_header_09:
  "request_version h = ''HTTP/0.9'' \<Longrightarrow> send_header k v h = h"
  by (simp add: send_header_def)

lemma end_headers_09:
  "request_version h = ''HTTP/0.9'' \<Longrightarrow> end_headers h = h"
  by (simp add: end_headers_def)

lemma send_response_only_1x:
  "request_version h \<noteq> ''HTTP/0.9'' \<Longrightarrow> send_response_only code (Some m) h =
     h\<lparr>headers_buffer := headers_buffer h @ [Status_line protocol_version code m]\<rparr>"
  by (simp add: send_response_only_def)

lemma send_response_only_200:
  "request_version h \<noteq> ''HTTP/0.9'' \<Longrightarrow> send_response_only 200 None h =
     h\<lparr>headers_buffer := headers_buffer h @ [Status_line protocol_version 200 ''OK'']\<rparr>"
  by (simp add: send_response_only_def responses_def)

lemma send_header_1x:
  "request_version h \<noteq> ''HTTP/0.9'' \<Longrightarrow> send_header k v h =
     h\<lparr>headers_buffer := headers_buffer h @ [Header_line k v]\<rparr>"
  by (simp add: send_header_def)

lemma end_headers_1x:
  "request_version h \<noteq> ''HTTP/0.9'' \<Longrightarrow> end_headers h =
     h\<lparr>wfile := wfile h @ headers_buffer h @ [End_of_headers], headers_buffer := []\<rparr>"
  by (simp add: end_headers_def flush_headers_def)

lemma send_response_09:
  "request_version h = ''HTTP/0.9'' \<Longrightarrow>
   send_response code message (h, p) = Ok (h, print (access_line h code) p)"
  by (simp add: send_response_def log_request_eq on_handler_def send_response_only_09 send_header_09)

lemma do_GET_09:
  "request_version h = ''HTTP/0.9'' \<Longrightarrow>
   do_GET (h, p) = Ok (h\<lparr>wfile := wfile h @ [Body greeting]\<rparr>, print (access_line h 200) p)"
  by (simp add: do_GET_def send_response_09 on_handler_def send_header_09 end_headers_09 wfile_write_def)

lemma send_response_200_1x:
  "request_version h \<noteq> ''HTTP/0.9'' \<Longrightarrow>
   send_response 200 None (h, p) =
     Ok (h\<lparr>headers_buffer := headers_buffer h @
            [Status_line protocol_version 200 ''OK'',
             Header_line ''Server'' (version_string h),
             Header_line ''Date'' (date_time_string h)]\<rparr>,
         print (access_line h 200) p)"
  by (simp add: send_response_def log_request_eq on_handler_def send_response_only_200 send_header_1x version_string_def)

lemma do_GET_1x:
  "request_version h \<noteq> ''HTTP/0.9'' \<Longrightarrow>
   do_GET (h, p) =
     Ok (h\<lparr>wfile := wfile h @ headers_buffer h @ ok_head h @ [Body greeting], headers_buffer := []\<rparr>,
         print (access_line h 200) p)"
  by (simp add: do_GET_def send_response_200_1x on_handler_def send_header_1x end_headers_1x wfile_write_def ok_head_def)

lemma log_error_501:
  "log_error ''code %d, message %s'' [PyInt 501, PyStr m] (h, p) = Ok (h, print (error_line h m) p)"
  by (simp add: log_error_code_message error_line_def py_str_501)

lemma send_response_501_1x:
  "request_version h \<noteq> ''HTTP/0.9'' \<Longrightarrow>
   send_response 501 (Some m) (h, p) =
     Ok (h\<lparr>headers_buffer := headers_buffer h @
            [Status_line protocol_version 501 m,
             Header_line ''Server'' (version_string h),
             Header_line ''Date'' (date_time_string h)]\<rparr>,
         print (access_line h 501) p)"
  by (simp add: send_response_def log_request_eq on_handler_def send_response_only_1x send_header_1x version_string_def)

lemma responses_501: "responses 501 = Some (''Not Implemented'', ''Server does not support this operation'')"
  by (simp add: responses_def)

lemma send_error_501_09:
  "request_version h = ''HTTP/0.9'' \<Longrightarrow>
   send_error 501 (Some m) None (h, p) =
     Ok (h\<lparr>wfile := wfile h @ error_body h (error_page h 501 m ''Server does not support this operation'')\<rparr>,
         print (access_line h 501) (print (error_line h m) p))"
  by (simp add: send_error_def responses_501 log_error_501 send_response_09 on_handler_def
      send_header_09 end_headers_09 wfile_write_def error_body_def)

lemma send_error_501_1x:
  "request_version h \<noteq> ''HTTP/0.9'' \<Longrightarrow>
   send_error 501 (Some m) None (h, p) =
     Ok (h\<lparr>wfile := wfile h @ headers_buffer h @
               error_head h m (error_page h 501 m ''Server does not support this operation'') @
               error_body h (error_page h 501 m ''Server does not support this operation''),
            headers_buffer := []\<rparr>,
         print (access_line h 501) (print (error_line h m) p))"
  by (simp add: send_error_def responses_501 log_error_501 send_response_501_1x on_handler_def
      send_header_1x end_headers_1x wfile_write_def error_body_def error_head_def)

lemma handle_one_request_GET:
  "command h = ''GET'' \<Longrightarrow> handle_one_request (h, p) = do_GET (h, p)"
  by (simp add: handle_one_request_def SimpleHandler_getattr_def)

lemma handle_one_request_other:
  "command h \<noteq> ''GET'' \<Longrightarrow>
   handle_one_request (h, p) = send_error 501 (Some (unsupported (command h))) None (h, p)"
  by (simp add: handle_one_request_def SimpleHandler_getattr_def unsupported_def)

lemma new_handler_sel:
  "request_version (new_handler r) = request_version r"
  "command (new_handler r) = command r"
  "wfile (new_handler r) = []"
  "headers_buffer (new_handler r) = []"
  "address_string (new_handler r) = fst (client_address r)"
  "requestline (new_handler r) = requestline r"
  "version_string (new_handler r) = ''BaseHTTP/0.6 '' @ sys_version r"
  "date_time_string (new_handler r) = date_time_string r"
  "error_page (new_handler r) = error_page r"
  by (simp_all add: new_handler_def address_string_def version_string_def server_version_def)

lemma response_GET_09:
  "command r = ''GET'' \<Longrightarrow> request_version r = ''HTTP/0.9'' \<Longrightarrow> response r p = [Body greeting]"
  by (simp add: response_def handle_one_request_GET do_GET_09 new_handler_sel)

lemma response_GET_1x:
  "command r = ''GET'' \<Longrightarrow> request_version r \<noteq> ''HTTP/0.9'' \<Longrightarrow>
   response r p = ok_head (new_handler r) @ [Body greeting]"
  by (simp add: response_def handle_one_request_GET do_GET_1x new_handler_sel)



lemma logged_GET:
  "command r = ''GET'' \<Longrightarrow> logged r p = stdout p @ [access_line (new_handler r) 200]"
  by (cases "request_version r = ''HTTP/0.9''")
     (simp_all add: logged_def handle_one_request_GET do_GET_09 do_GET_1x new_handler_sel print_def)

lemma logged_other:
  "command r \<noteq> ''GET'' \<Longrightarrow>
   logged r p = stdout p @ [error_line (new_handler r) (unsupported (command r)), access_line (new_handler r) 501]"
  by (cases "request_version r = ''HTTP/0.9''")
     (simp_all add: logged_def handle_one_request_other send_error_501_09 send_error_501_1x new_handler_sel print_def)

lemma handle_one_request_process:
  "snd (state_of (handle_one_request (h, p))) = p\<lparr>stdout := stdout (snd (state_of (handle_one_request (h, p))))\<rparr>"
proof (cases "command h = ''GET''")
  case True
  then show ?thesis
    by (cases "request_version h = ''HTTP/0.9''")
       (simp_all add: handle_one_request_GET do_GET_09 do_GET_1x print_def)
next
  case False
  then show ?thesis
    by (cases "request_version h = ''HTTP/0.9''")
       (simp_all add: handle_one_request_other send_error_501_09 send_error_501_1x print_def)
qed

lemma finish_request_eq:
  "finish_request r p = p\<lparr>stdout := logged r p, connections := connections p @ [response r p]\<rparr>"
proof -
  obtain h' p' where s: "state_of (handle_one_request (new_handler r, p)) = (h', p')"
    by (cases "state_of (handle_one_request (new_handler r, p))")
  from handle_one_request_process [of "new_handler r" p] s
  have "p' = p\<lparr>stdout := stdout p'\<rparr>" by simp
  then have "p'\<lparr>connections := connections p' @ [h]\<rparr> = p\<lparr>stdout := stdout p', connections := connections p @ [h]\<rparr>" for h
    by (metis (no_types) process.select_convs(3) process.surjective process.update_convs(3) world.select_convs world.update_convs)
  with s show ?thesis
    by (simp add: finish_request_def logged_def response_def)
qed

lemma finish_request_frame:
  "trace (finish_request r p) = trace p" "PORT (finish_request r p) = PORT p"
  "server_port (finish_request r p) = server_port p" "refused (finish_request r p) = refused p"
  "environ (finish_request r p) = environ p"
  by (simp_all add: finish_request_eq)

lemma serve_forever_frame:
  "trace (serve_forever rs p) = trace p \<and> PORT (serve_forever rs p) = PORT p \<and>
   server_port (serve_forever rs p) = server_port p \<and> refused (serve_forever rs p) = refused p \<and>
   environ (serve_forever rs p) = environ p"
  by (induction rs arbitrary: p) (simp_all add: finish_request_frame)

lemma HTTPServer_overflow:
  "port < 0 \<or> 65535 < port \<Longrightarrow>
   HTTPServer port p = Exn OverflowError (p\<lparr>trace := trace p @ [Socket_create, Socket_bind port, Socket_close]\<rparr>)"
  by (simp add: HTTPServer_def server_bind_def Let_def)

lemma HTTPServer_refused:
  "0 \<le> port \<Longrightarrow> port \<le> 65535 \<Longrightarrow> refused p (if port = 0 then ephemeral p else port) = Some e \<Longrightarrow>
   HTTPServer port p = Exn (OSError e) (p\<lparr>trace := trace p @ [Socket_create, Socket_bind port, Socket_close]\<rparr>)"
  by (cases "port = 0") (simp_all add: HTTPServer_def server_bind_def Let_def)

lemma HTTPServer_free:
  "0 < port \<Longrightarrow> port \<le> 65535 \<Longrightarrow> refused p port = None \<Longrightarrow>
   HTTPServer port p =
     Ok (p\<lparr>trace := trace p @ [Socket_create, Socket_bind port, Socket_listen],
           refused := (refused p)(port \<mapsto> EADDRINUSE), server_port := Some port\<rparr>)"
  by (simp add: HTTPServer_def server_bind_def Let_def)

lemma py_repr_POST: "py_repr ''POST'' = [CHR 0x27] @ ''POST'' @ [CHR 0x27]"
  by code_simp

section \<open>Integers and their decimal strings\<close>

lemma of_char_digit_char: "d < 10 \<Longrightarrow> (of_char (digit_char d) :: nat) = 48 + d"
  by (simp add: digit_char_def)

lemma char_lit_codes:
  "(of_char (CHR ''_'') :: nat) = 95" "(of_char (CHR ''+'') :: nat) = 43"
  "(of_char (CHR ''-'') :: nat) = 45"
  by simp_all

lemma digit_char_neq:
  assumes "d < 10" and "(of_char c :: nat) < 48 \<or> 57 < (of_char c :: nat)"
  shows "digit_char d \<noteq> c"
proof
  assume "digit_char d = c"
  then have "(of_char c :: nat) = 48 + d"
    using of_char_digit_char [OF assms(1)] by simp
  with assms show False by arith
qed

lemma digit_char_props:
  assumes "d < 10"
  shows "is_digit (digit_char d)" "digit_value (digit_char d) = int d"
    "digit_char d \<noteq> CHR ''_''" "digit_char d \<noteq> CHR ''+''" "digit_char d \<noteq> CHR ''-''"
    "\<not> Py_ISSPACE (digit_char d)" "(of_char (digit_char d) :: nat) < 128"
proof -
  have c: "(of_char (digit_char d) :: nat) = 48 + d"
    using assms by (rule of_char_digit_char)
  show "is_digit (digit_char d)" using assms by (simp add: is_digit_def c)
  show "digit_value (digit_char d) = int d" by (simp add: digit_value_def c)
  show "digit_char d \<noteq> CHR ''_''" by (rule digit_char_neq [OF assms]) (simp add: char_lit_codes)
  show "digit_char d \<noteq> CHR ''+''" by (rule digit_char_neq [OF assms]) (simp add: char_lit_codes)
  show "digit_char d \<noteq> CHR ''-''" by (rule digit_char_neq [OF assms]) (simp add: char_lit_codes)
  show "\<not> Py_ISSPACE (digit_char d)" by (simp add: Py_ISSPACE_def c)
  show "(of_char (digit_char d) :: nat) < 128" using assms by (simp add: c)
qed

lemma str_nat_small: "n < 10 \<Longrightarrow> str_nat n = [digit_char n]"
  by (subst str_nat.simps) simp

lemma str_nat_big: "\<not> n < 10 \<Longrightarrow> str_nat n = str_nat (n div 10) @ [digit_char (n mod 10)]"
  by (subst str_nat.simps) simp

lemma scan_digit_step:
  "d < 10 \<Longrightarrow> scan_digits (digit_char d # cs) prev k acc =
     scan_digits cs (digit_char d) (Suc k) (acc * 10 + int d)"
  by (simp add: digit_char_props)

lemma scan_digits_str_nat:
  "scan_digits (str_nat n @ rest) prev k acc =
     scan_digits rest (digit_char (n mod 10)) (k + length (str_nat n))
       (acc * 10 ^ length (str_nat n) + int n)"
proof (induction n arbitrary: rest prev k acc rule: str_nat.induct)
  case (1 n)
  show ?case
  proof (cases "n < 10")
    case True
    then show ?thesis by (simp add: str_nat_small scan_digit_step del: scan_digits.simps)
  next
    case False
    have m: "n mod 10 < 10" by simp
    have "scan_digits (str_nat n @ rest) prev k acc =
          scan_digits (str_nat (n div 10) @ (digit_char (n mod 10) # rest)) prev k acc"
      using False by (simp add: str_nat_big)
    also have "\<dots> = scan_digits (digit_char (n mod 10) # rest) (digit_char (n div 10 mod 10))
          (k + length (str_nat (n div 10))) (acc * 10 ^ length (str_nat (n div 10)) + int (n div 10))"
      using False by (rule "1.IH")
    also have "\<dots> = scan_digits rest (digit_char (n mod 10)) (Suc (k + length (str_nat (n div 10))))
          ((acc * 10 ^ length (str_nat (n div 10)) + int (n div 10)) * 10 + int (n mod 10))"
      using m by (rule scan_digit_step)
    also have "(acc * 10 ^ length (str_nat (n div 10)) + int (n div 10)) * 10 + int (n mod 10) =
          acc * 10 ^ length (str_nat n) + int n"
      using False by (simp add: str_nat_big algebra_simps zdiv_int zmod_int)
    also have "Suc (k + length (str_nat (n div 10))) = k + length (str_nat n)"
      using False by (simp add: str_nat_big)
    finally show ?thesis .
  qed
qed

lemma str_nat_Cons: "\<exists>d cs. d < 10 \<and> str_nat n = digit_char d # cs"
proof (induction n rule: str_nat.induct)
  case (1 n)
  show ?case
  proof (cases "n < 10")
    case True
    then show ?thesis by (auto simp add: str_nat_small)
  next
    case False
    with "1.IH" obtain d cs where "d < 10" "str_nat (n div 10) = digit_char d # cs" by blast
    with False show ?thesis by (auto simp add: str_nat_big)
  qed
qed

lemma str_nat_ascii: "list_all (\<lambda>c. (of_char c :: nat) < 128) (str_nat n)"
proof (induction n rule: str_nat.induct)
  case (1 n)
  show ?case
  proof (cases "n < 10")
    case True
    then show ?thesis by (simp add: str_nat_small digit_char_props)
  next
    case False
    with "1.IH" show ?thesis by (simp add: str_nat_big digit_char_props)
  qed
qed

lemma length_str_nat: "0 < k \<Longrightarrow> n < 10 ^ k \<Longrightarrow> length (str_nat n) \<le> k"
proof (induction n arbitrary: k rule: str_nat.induct)
  case (1 n)
  show ?case
  proof (cases "n < 10")
    case True
    with "1.prems" show ?thesis by (simp add: str_nat_small)
  next
    case False
    with "1.prems" obtain j where k: "k = Suc j" by (cases k) auto
    have "0 < j"
    proof (rule ccontr)
      assume "\<not> 0 < j"
      with k "1.prems" False show False by simp
    qed
    moreover have "n div 10 < 10 ^ j"
      using "1.prems" k by (simp add: less_mult_imp_div_less mult.commute)
    ultimately have "length (str_nat (n div 10)) \<le> j"
      using False "1.IH" by blast
    with False k show ?thesis by (simp add: str_nat_big)
  qed
qed

lemma scan_digits_str_nat_all:
  "scan_digits (str_nat m) prev 0 0 = Some (digit_char (m mod 10), length (str_nat m), int m, [])"
  using scan_digits_str_nat [of m "[]" prev 0 0] by simp

lemma PyLong_FromString_str_nat:
  assumes "length (str_nat m) \<le> max_str_digits"
  shows "PyLong_FromString (str_nat m) = Inr (int m)"
proof -
  obtain d cs where d: "d < 10" and s: "str_nat m = digit_char d # cs"
    using str_nat_Cons by blast
  have m: "m mod 10 < 10" by simp
  have 1: "dropWhile Py_ISSPACE (str_nat m) = str_nat m"
    by (simp add: s digit_char_props [OF d])
  have 2: "take_sign (str_nat m) = (1, str_nat m)"
    by (simp add: take_sign_def s digit_char_props [OF d])
  have 3: "take 1 (str_nat m) \<noteq> ''_''"
    by (simp add: s digit_char_props [OF d])
  have 4: "0 < length (str_nat m)"
    by (simp add: s)
  show ?thesis
    unfolding PyLong_FromString_def 1 2
    using 3 4 assms by (simp add: scan_digits_str_nat_all digit_char_props [OF m])
qed

lemma py_int_py_str:
  assumes "0 \<le> n" and "n \<le> 65535"
  shows "py_int (PyStr (py_str n)) = Inr n"
proof -
  have "nat n < 10 ^ 5"
    using assms by simp
  then have "length (str_nat (nat n)) \<le> 5"
    by (rule length_str_nat [rotated]) simp
  then have "length (str_nat (nat n)) \<le> max_str_digits"
    by (simp add: max_str_digits_def)
  then have "PyLong_FromString (str_nat (nat n)) = Inr (int (nat n))"
    by (rule PyLong_FromString_str_nat)
  with assms(1) show ?thesis
    by (simp add: py_str_def TransformDecimalAndSpaceToASCII_def str_nat_ascii)
qed

lemma py_int_empty: "py_int (PyStr []) = Inl ValueError"
  by (simp add: TransformDecimalAndSpaceToASCII_def PyLong_FromString_def take_sign_def)

lemma digit_chars: "digit_char 0 = CHR ''0''" "digit_char 9 = CHR ''9''" "digit_char 8 = CHR ''8''"
  by code_simp+

lemma py_str_9090: "py_str 9090 = ''9090''"
  by (simp add: py_str_def str_nat.simps digit_chars)

lemma py_str_8080: "py_str 8080 = ''8080''"
  by (simp add: py_str_def str_nat.simps digit_chars)

section \<open>Closed forms of loading and starting\<close>

lemma module_init_eq:
  "module_init w =
     (case py_int (environ_get (environ w) ''PORT'' (PyInt 8080)) of
        Inl e \<Rightarrow> Inl (e, w\<lparr>trace := trace w @ [Environ_get ''PORT'']\<rparr>)
      | Inr n \<Rightarrow> Inr (loaded w n))"
  by (simp add: module_init_def loaded_def Let_def split: sum.splits)

lemma module_init_absent:
  "environ w ''PORT'' = None \<Longrightarrow> module_init w = Inr (loaded w 8080)"
  by (simp add: module_init_eq environ_get_def)

lemma module_init_present:
  "environ w ''PORT'' = Some s \<Longrightarrow>
   module_init w =
     (case py_int (PyStr s) of
        Inl e \<Rightarrow> Inl (e, w\<lparr>trace := trace w @ [Environ_get ''PORT'']\<rparr>)
      | Inr n \<Rightarrow> Inr (loaded w n))"
  by (simp add: module_init_eq environ_get_def)

lemma loaded_sel:
  "PORT (loaded w n) = n" "trace (loaded w n) = trace w @ [Environ_get ''PORT'']"
  "stdout (loaded w n) = stdout w" "refused (loaded w n) = refused w"
  "ephemeral (loaded w n) = ephemeral w" "server_port (loaded w n) = None"
  "connections (loaded w n) = []" "environ (loaded w n) = environ w"
  by (simp_all add: loaded_def)

lemma run_server_overflow:
  "PORT p < 0 \<or> 65535 < PORT p \<Longrightarrow>
   run_server rs p =
     Exn OverflowError (p\<lparr>trace := trace p @ [Socket_create, Socket_bind (PORT p), Socket_close]\<rparr>)"
  by (simp add: run_server_def HTTPServer_overflow)

lemma run_server_refused:
  "0 \<le> PORT p \<Longrightarrow> PORT p \<le> 65535 \<Longrightarrow>
   refused p (if PORT p = 0 then ephemeral p else PORT p) = Some e \<Longrightarrow>
   run_server rs p =
     Exn (OSError e) (p\<lparr>trace := trace p @ [Socket_create, Socket_bind (PORT p), Socket_close]\<rparr>)"
  by (simp add: run_server_def HTTPServer_refused)

lemma run_server_free:
  "0 < PORT p \<Longrightarrow> PORT p \<le> 65535 \<Longrightarrow> refused p (PORT p) = None \<Longrightarrow>
   run_server rs p =
     Ok (serve_forever rs
          (p\<lparr>trace := trace p @ [Socket_create, Socket_bind (PORT p), Socket_listen],
             refused := (refused p)(PORT p \<mapsto> EADDRINUSE), server_port := Some (PORT p),
             stdout := stdout p @ [banner (PORT p)]\<rparr>))"
  by (simp add: run_server_def HTTPServer_free print_def banner_def)

lemma main_free:
  assumes "module_init w = Inr (loaded w n)" "0 < n" "n \<le> 65535" "refused w n = None"
  shows "\<exists>p. main w rs = Serving p \<and> PORT p = n \<and> server_port p = Some n \<and>
     trace p = trace w @ [Environ_get ''PORT'', Socket_create, Socket_bind n, Socket_listen] \<and>
     refused p = (refused w)(n \<mapsto> EADDRINUSE)"
proof -
  have "run_server rs (loaded w n) =
     Ok (serve_forever rs
          ((loaded w n)\<lparr>trace := trace (loaded w n) @ [Socket_create, Socket_bind n, Socket_listen],
             refused := (refused w)(n \<mapsto> EADDRINUSE), server_port := Some n,
             stdout := stdout w @ [banner n]\<rparr>))"
    using run_server_free [of "loaded w n" rs] assms(2-4) by (simp add: loaded_sel)
  then show ?thesis
    using assms(1) by (simp add: main_def serve_forever_frame loaded_sel)
qed

lemma HTTPServer_cases:
  "(\<exists>e. HTTPServer port p =
         Exn e (p\<lparr>trace := trace p @ [Socket_create, Socket_bind port, Socket_close]\<rparr>)) \<or>
   (\<exists>a. HTTPServer port p =
         Ok (p\<lparr>trace := trace p @ [Socket_create, Socket_bind port, Socket_listen],
               refused := (refused p)(a \<mapsto> EADDRINUSE), server_port := Some a\<rparr>))"
proof (cases "port < 0 \<or> 65535 < port")
  case True
  then show ?thesis by (simp add: HTTPServer_overflow)
next
  case False
  show ?thesis
  proof (cases "refused p (if port = 0 then ephemeral p else port)")
    case None
    with False have "HTTPServer port p =
         Ok (p\<lparr>trace := trace p @ [Socket_create, Socket_bind port, Socket_listen],
               refused := (refused p)((if port = 0 then ephemeral p else port) \<mapsto> EADDRINUSE),
               server_port := Some (if port = 0 then ephemeral p else port)\<rparr>)"
      by (cases "port = 0") (simp_all add: HTTPServer_def server_bind_def Let_def)
    then show ?thesis by blast
  next
    case (Some e)
    with False show ?thesis by (simp add: HTTPServer_refused)
  qed
qed

lemma run_server_cases:
  "(\<exists>e. run_server rs p =
         Exn e (p\<lparr>trace := trace p @ [Socket_create, Socket_bind (PORT p), Socket_close]\<rparr>)) \<or>
   (\<exists>q. run_server rs p = Ok (serve_forever rs q) \<and> PORT q = PORT p \<and>
         trace q = trace p @ [Socket_create, Socket_bind (PORT p), Socket_listen])"
  using HTTPServer_cases [of "PORT p" p]
  by (auto simp add: run_server_def print_def)

lemma run_server_frame:
  "PORT (state_of (run_server rs p)) = PORT p"
  "\<exists>ev. trace (state_of (run_server rs p)) = trace p @ [Socket_create, Socket_bind (PORT p), ev] \<and>
        (ev = Socket_close \<or> ev = Socket_listen)"
  using run_server_cases [of rs p] by (auto simp add: serve_forever_frame)

lemma handle_one_request_frame:
  "PORT (snd (state_of (handle_one_request (h, p)))) = PORT p"
  "trace (snd (state_of (handle_one_request (h, p)))) = trace p"
  by (subst handle_one_request_process, simp)+

lemma module_init_Inr: "module_init w = Inr p \<Longrightarrow> \<exists>n. p = loaded w n \<and> py_int (environ_get (environ w) ''PORT'' (PyInt 8080)) = Inr n"
  by (auto simp add: module_init_eq split: sum.splits)

lemma module_init_Inl: "module_init w = Inl x \<Longrightarrow> \<exists>e. x = (e, w\<lparr>trace := trace w @ [Environ_get ''PORT'']\<rparr>)"
  by (auto simp add: module_init_eq split: sum.splits)

lemma calls_main_loaded:
  "module_init w = Inr p0 \<Longrightarrow> calls (main w rs) = trace (state_of (run_server rs p0))"
  by (cases "run_server rs p0") (simp_all add: main_def)

section \<open>What \<open>int\<close> accepts is a valid integer string\<close>

lemma char_map_ok_id: "char_map_ok (\<lambda>c. c)"
  by (simp add: char_map_ok_def whitespace_def)

lemma char_map_ok_to_ascii: "char_map_ok to_ascii_char"
  unfolding char_map_ok_def
proof (intro allI)
  fix c
  show "is_digit (to_ascii_char c) = is_digit c \<and>
        (to_ascii_char c = CHR ''_'') = (c = CHR ''_'') \<and>
        (to_ascii_char c = CHR ''+'') = (c = CHR ''+'') \<and>
        (to_ascii_char c = CHR ''-'') = (c = CHR ''-'') \<and>
        (Py_ISSPACE (to_ascii_char c) \<longrightarrow> whitespace c)"
  proof (cases "(of_char c :: nat) < 127")
    case True
    then show ?thesis
      by (simp add: to_ascii_char_def whitespace_def)
  next
    case False
    then have "c \<noteq> CHR ''_''" "c \<noteq> CHR ''+''" "c \<noteq> CHR ''-''" "\<not> is_digit c"
      by (auto simp add: is_digit_def)
    with False show ?thesis
      by (auto simp add: to_ascii_char_def is_digit_def Py_ISSPACE_def Py_UNICODE_ISSPACE_def
          whitespace_def Let_def)
  qed
qed

lemma char_map_okD:
  assumes "char_map_ok g"
  shows "is_digit (g c) = is_digit c" "(g c = CHR ''_'') = (c = CHR ''_'')"
    "(g c = CHR ''+'') = (c = CHR ''+'')" "(g c = CHR ''-'') = (c = CHR ''-'')"
    "Py_ISSPACE (g c) \<Longrightarrow> whitespace c"
  using assms by (simp_all add: char_map_ok_def)

lemma char_map_ok_fix:
  assumes "char_map_ok g"
  shows "g (CHR ''_'') = CHR ''_''" "g (CHR ''+'') = CHR ''+''" "g (CHR ''-'') = CHR ''-''"
  using char_map_okD(2-4) [OF assms] by blast+

lemma digit_not_underscore: "is_digit c \<Longrightarrow> c \<noteq> CHR ''_''"
  by (auto simp add: is_digit_def)

lemma scan_digits_accepts:
  assumes g: "char_map_ok g"
  shows "scan_digits (map g cs) prev n acc = Some (prev', n', acc', rest) \<Longrightarrow>
         prev' \<noteq> CHR ''_'' \<Longrightarrow> dropWhile Py_ISSPACE rest = [] \<Longrightarrow>
         (is_digit prev \<longrightarrow> digits_tail cs) \<and> (prev = CHR ''_'' \<longrightarrow> digitpart cs)"
proof (induction cs arbitrary: prev n acc)
  case Nil
  then show ?case by auto
next
  case (Cons c cs)
  show ?case
  proof (cases "c = CHR ''_''")
    case True
    show ?thesis
    proof (cases "prev = CHR ''_''")
      case True
      with \<open>c = CHR ''_''\<close> Cons.prems(1) show ?thesis
        by (simp add: char_map_okD [OF g])
    next
      case False
      with \<open>c = CHR ''_''\<close> Cons.prems(1)
      have "scan_digits (map g cs) (CHR ''_'') n acc = Some (prev', n', acc', rest)"
        by (simp add: char_map_okD [OF g] char_map_ok_fix [OF g])
      from Cons.IH [OF this Cons.prems(2,3)] have "digitpart cs" by simp
      with \<open>c = CHR ''_''\<close> False show ?thesis
        by (auto simp add: digitpart_def is_digit_def split: list.splits)
    qed
  next
    case False
    show ?thesis
    proof (cases "is_digit c")
      case True
      with False Cons.prems(1)
      have "scan_digits (map g cs) (g c) (Suc n) (acc * 10 + digit_value (g c)) =
              Some (prev', n', acc', rest)"
        by (simp add: char_map_okD [OF g])
      from Cons.IH [OF this Cons.prems(2,3)] True have "digits_tail cs"
        by (simp add: char_map_okD [OF g])
      with True False show ?thesis
        by (simp add: digitpart_def)
    next
      case nd: False
      with False Cons.prems(1) have "rest = map g (c # cs)" "prev' = prev"
        by (simp_all add: char_map_okD [OF g])
      with Cons.prems(2,3) have "prev \<noteq> CHR ''_''" "dropWhile Py_ISSPACE (map g (c # cs)) = []"
        by simp_all
      then have "\<forall>x \<in> set (c # cs). Py_ISSPACE (g x)"
        unfolding dropWhile_eq_Nil_conv by simp
      then have "list_all whitespace (c # cs)"
        unfolding list_all_iff using char_map_okD(5) [OF g] by blast
      with False nd \<open>prev \<noteq> CHR ''_''\<close> show ?thesis
        by simp
    qed
  qed
qed

lemma scan_digits_start:
  assumes g: "char_map_ok g"
    and u: "take 1 (map g cs) \<noteq> ''_''"
    and s: "scan_digits (map g cs) (CHR 0x00) 0 0 = Some (prev', n', acc', rest)"
    and p: "prev' \<noteq> CHR ''_''" and n: "n' \<noteq> 0"
    and r: "dropWhile Py_ISSPACE rest = []"
  shows "digitpart cs"
proof (cases cs)
  case Nil
  with s n show ?thesis by simp
next
  case (Cons d ds)
  with u have d: "d \<noteq> CHR ''_''"
    by (simp add: char_map_okD [OF g])
  show ?thesis
  proof (cases "is_digit d")
    case True
    with d s Cons
    have "scan_digits (map g ds) (g d) (Suc 0) (digit_value (g d)) = Some (prev', n', acc', rest)"
      by (simp add: char_map_okD [OF g])
    from scan_digits_accepts [OF g this p r] True have "digits_tail ds"
      by (simp add: char_map_okD [OF g])
    with True Cons show ?thesis by (simp add: digitpart_def)
  next
    case False
    with d s Cons n show ?thesis
      by (simp add: char_map_okD [OF g])
  qed
qed

lemma not_whitespace:
  "\<not> whitespace (CHR ''+'')" "\<not> whitespace (CHR ''-'')" "is_digit c \<Longrightarrow> \<not> whitespace c"
  by (auto simp add: whitespace_def Py_ISSPACE_def is_digit_def)

lemma dropWhile_whitespace:
  assumes g: "char_map_ok g" and c: "dropWhile (Py_ISSPACE \<circ> g) s = c # cs" and w: "\<not> whitespace c"
  shows "dropWhile whitespace s = c # cs"
proof -
  have "s = takeWhile (Py_ISSPACE \<circ> g) s @ c # cs"
    using c by (metis takeWhile_dropWhile_id)
  moreover have "\<forall>x \<in> set (takeWhile (Py_ISSPACE \<circ> g) s). whitespace x"
    using char_map_okD(5) [OF g] by (auto dest: set_takeWhileD)
  ultimately show ?thesis
    using w by (metis dropWhile_append3 dropWhile_eq_Nil_conv append_Nil)
qed

lemma PyLong_FromString_accepts:
  assumes g: "char_map_ok g" and a: "PyLong_FromString (map g s) = Inr n"
  shows "valid_integer_string s"
proof -
  have dm: "dropWhile Py_ISSPACE (map g s) = map g (dropWhile (Py_ISSPACE \<circ> g) s)"
    by (rule dropWhile_map)
  show ?thesis
  proof (cases "dropWhile (Py_ISSPACE \<circ> g) s")
    case Nil
    with a dm show ?thesis
      by (simp add: PyLong_FromString_def take_sign_def)
  next
    case (Cons c cs)
    show ?thesis
    proof (cases "c = CHR ''+'' \<or> c = CHR ''-''")
      case True
      then have ts: "take_sign (map g (c # cs)) = (if c = CHR ''+'' then 1 else - 1, map g cs)"
        by (auto simp add: take_sign_def char_map_ok_fix [OF g])
      from a have "digitpart cs"
        unfolding PyLong_FromString_def dm Cons ts
        by (auto split: option.splits if_splits intro: scan_digits_start [OF g])
      moreover from True have "\<not> whitespace c"
        by (auto simp add: not_whitespace)
      then have "dropWhile whitespace s = c # cs"
        by (rule dropWhile_whitespace [OF g Cons])
      ultimately show ?thesis
        using True by (simp add: valid_integer_string_def)
    next
      case False
      then have ts: "take_sign (map g (c # cs)) = (1, map g (c # cs))"
        by (simp add: take_sign_def char_map_okD [OF g])
      from a have dp: "digitpart (c # cs)"
        unfolding PyLong_FromString_def dm Cons ts
        by (auto split: option.splits if_splits intro: scan_digits_start [OF g])
      then have "is_digit c" by (simp add: digitpart_def)
      then have "\<not> whitespace c" by (rule not_whitespace)
      then have "dropWhile whitespace s = c # cs"
        by (rule dropWhile_whitespace [OF g Cons])
      with dp False show ?thesis
        by (simp add: valid_integer_string_def)
    qed
  qed
qed

lemma py_int_accepts:
  assumes "py_int (PyStr s) = Inr n"
  shows "valid_integer_string s"
proof (cases "list_all (\<lambda>c. (of_char c :: nat) < 128) s")
  case True
  with assms have "PyLong_FromString (map (\<lambda>c. c) s) = Inr n"
    by (simp add: TransformDecimalAndSpaceToASCII_def)
  with char_map_ok_id show ?thesis by (rule PyLong_FromString_accepts)
next
  case False
  with assms have "PyLong_FromString (map to_ascii_char s) = Inr n"
    by (simp add: TransformDecimalAndSpaceToASCII_def)
  with char_map_ok_to_ascii show ?thesis by (rule PyLong_FromString_accepts)
qed

lemma PyLong_FromString_error: "PyLong_FromString t = Inl e \<Longrightarrow> e = ValueError"
  by (auto simp add: PyLong_FromString_def split: prod.splits option.splits if_splits)

lemma py_int_rejects:
  assumes "\<not> valid_integer_string s"
  shows "py_int (PyStr s) = Inl ValueError"
proof (cases "py_int (PyStr s)")
  case (Inl e)
  then have "e = ValueError" by (auto dest: PyLong_FromString_error)
  with Inl show ?thesis by simp
next
  case (Inr n)
  then have "valid_integer_string s" by (rule py_int_accepts)
  with assms show ?thesis by simp
qed

section \<open>The claims\<close>

text \<open>
  C1 (amended). A GET request whose version is not HTTP/0.9 is answered with status 200,
  one \<open>Content-Type\<close> header of value \<open>text/plain\<close> and the greeting as body, whatever its
  path, headers and other fields are; the whole response is the status line, the
  \<open>Server\<close>, \<open>Date\<close> and \<open>Content-Type\<close> headers, the blank line and the greeting. A GET
  request of version HTTP/0.9 is answered with the greeting alone.
\<close>

theorem get_response:
  "command r = ''GET'' \<Longrightarrow>
     (request_version r \<noteq> ''HTTP/0.9'' \<longrightarrow>
        status_codes (response r p) = [200] \<and>
        header_values ''Content-Type'' (response r p) = [''text/plain''] \<and>
        body_of (response r p) = greeting \<and>
        response r p =
          [Status_line ''HTTP/1.0'' 200 ''OK'',
           Header_line ''Server'' (''BaseHTTP/0.6 '' @ sys_version r),
           Header_line ''Date'' (date_time_string r),
           Header_line ''Content-Type'' ''text/plain'',
           End_of_headers,
           Body greeting]) \<and>
     (request_version r = ''HTTP/0.9'' \<longrightarrow> response r p = [Body greeting])"
  by (simp add: response_GET_09 response_GET_1x ok_head_def protocol_version_def new_handler_sel)

theorem get_response_witness:
  "command get_root = ''GET'' \<and> request_version get_root \<noteq> ''HTTP/0.9'' \<and>
   status_codes (response get_root serving) = [200] \<and>
   header_values ''Content-Type'' (response get_root serving) = [''text/plain''] \<and>
   body_of (response get_root serving) = greeting"
  using get_response [of get_root serving] by simp

text \<open>
  C1 as stated fails for the GET request \<open>GET /\<close>, which has no version and is handled as
  HTTP/0.9: the handler is called, and neither a status line nor a header is sent.
\<close>

theorem get_without_version_has_no_status:
  "command (get_root\<lparr>requestline := ''GET /'', request_version := ''HTTP/0.9''\<rparr>) = ''GET'' \<and>
   status_codes
     (response (get_root\<lparr>requestline := ''GET /'', request_version := ''HTTP/0.9''\<rparr>) serving)
     \<noteq> [200] \<and>
   header_values ''Content-Type''
     (response (get_root\<lparr>requestline := ''GET /'', request_version := ''HTTP/0.9''\<rparr>) serving)
     \<noteq> [''text/plain'']"
  by (simp add: response_GET_09)




text \<open>
  C3 (amended). Two GET requests that differ in request line, path and headers only,
  handled by processes in any two states, get the same response: the same status, the
  same \<open>Content-Type\<close> header and the same body, which is the greeting. When their version
  is not HTTP/0.9 the status is 200 and the \<open>Content-Type\<close> is \<open>text/plain\<close>; when it is
  HTTP/0.9 no status line and no \<open>Content-Type\<close> header are sent.
\<close>

theorem path_and_headers_ignored:
  "command r = ''GET'' \<Longrightarrow>
     response (r\<lparr>requestline := line, path := pa, headers := hs\<rparr>) p' = response r p \<and>
     status_codes (response (r\<lparr>requestline := line, path := pa, headers := hs\<rparr>) p') =
       status_codes (response r p) \<and>
     header_values ''Content-Type'' (response (r\<lparr>requestline := line, path := pa, headers := hs\<rparr>) p') =
       header_values ''Content-Type'' (response r p) \<and>
     body_of (response (r\<lparr>requestline := line, path := pa, headers := hs\<rparr>) p') =
       body_of (response r p) \<and>
     body_of (response r p) = greeting \<and>
     (request_version r \<noteq> ''HTTP/0.9'' \<longrightarrow>
        status_codes (response r p) = [200] \<and>
        header_values ''Content-Type'' (response r p) = [''text/plain'']) \<and>
     (request_version r = ''HTTP/0.9'' \<longrightarrow>
        status_codes (response r p) = [] \<and>
        header_values ''Content-Type'' (response r p) = [])"
  by (cases "request_version r = ''HTTP/0.9''")
     (simp_all add: response_GET_09 response_GET_1x ok_head_def new_handler_sel)

theorem path_and_headers_ignored_witness:
  "command get_root = ''GET'' \<and> request_version get_root \<noteq> ''HTTP/0.9'' \<and>
   response (get_root\<lparr>requestline := ''GET /healthz?verbose=1 HTTP/1.1'', path := ''/healthz?verbose=1'',
               headers := [(''Accept'', ''text/html'')]\<rparr>) serving = response get_root serving \<and>
   status_codes (response get_root serving) = [200] \<and>
   header_values ''Content-Type'' (response get_root serving) = [''text/plain''] \<and>
   body_of (response get_root serving) = greeting"
  using path_and_headers_ignored [where r = get_root and line = "''GET /healthz?verbose=1 HTTP/1.1''"
      and pa = "''/healthz?verbose=1''" and hs = "[(''Accept'', ''text/html'')]"
      and p = serving and p' = serving]
  by simp

text \<open>
  C3 as stated fails for two GET requests of version HTTP/0.9 that differ in path and in
  their \<open>Accept\<close> header: their responses are the same, but neither has a \<open>Content-Type\<close>
  header or a status.
\<close>

theorem versionless_gets_have_no_content_type:
  "command (get_root\<lparr>requestline := ''GET /healthz'', path := ''/healthz'',
              request_version := ''HTTP/0.9'', headers := [(''Accept'', ''text/html'')]\<rparr>) = ''GET'' \<and>
   command (get_root\<lparr>requestline := ''GET /metrics'', path := ''/metrics'',
              request_version := ''HTTP/0.9'', headers := [(''Accept'', ''application/json'')]\<rparr>) = ''GET'' \<and>
   header_values ''Content-Type''
     (response (get_root\<lparr>requestline := ''GET /healthz'', path := ''/healthz'',
        request_version := ''HTTP/0.9'', headers := [(''Accept'', ''text/html'')]\<rparr>) serving) = [] \<and>
   header_values ''Content-Type''
     (response (get_root\<lparr>requestline := ''GET /metrics'', path := ''/metrics'',
        request_version := ''HTTP/0.9'', headers := [(''Accept'', ''application/json'')]\<rparr>) serving) = [] \<and>
   status_codes
     (response (get_root\<lparr>requestline := ''GET /metrics'', path := ''/metrics'',
        request_version := ''HTTP/0.9'', headers := [(''Accept'', ''application/json'')]\<rparr>) serving) = []"
  by (simp add: response_GET_09)

text \<open>
  C8 (amended). Handling a GET request writes exactly one line to the standard output:
  the client's address, \<open> - \<close>, the request line in double quotes, the status 200 and
  \<open>-\<close>. Handling a request with another method writes two lines, each starting with the
  client's address: the error with its code and message, then the request line with
  status 501.
\<close>

theorem log_lines:
  "logged r p = stdout p @
     (if command r = ''GET''
      then [fst (client_address r) @ '' - '' @ [CHR 0x22] @ requestline r @ [CHR 0x22] @ '' 200 -'']
      else [fst (client_address r) @ '' - code 501, message Unsupported method ('' @
              py_repr (command r) @ '')'',
            fst (client_address r) @ '' - '' @ [CHR 0x22] @ requestline r @ [CHR 0x22] @ '' 501 -''])"
  by (simp add: logged_GET logged_other access_line_def error_line_def unsupported_def
      new_handler_sel py_str_200 py_str_501)

theorem log_lines_witness:
  "logged get_root serving =
     [''Starting Python web server on port 8080...'',
      ''10.0.0.7 - '' @ [CHR 0x22] @ ''GET / HTTP/1.1'' @ [CHR 0x22] @ '' 200 -'']"
  using log_lines [of get_root serving] by simp

text \<open>C8 as stated fails for a POST request, which adds two lines to the standard output.\<close>

theorem post_writes_two_log_lines:
  "logged post_root serving =
     [''Starting Python web server on port 8080...'',
      ''10.0.0.7 - code 501, message Unsupported method ('' @ [CHR 0x27] @ ''POST'' @ [CHR 0x27] @ '')'',
      ''10.0.0.7 - '' @ [CHR 0x22] @ ''POST / HTTP/1.1'' @ [CHR 0x22] @ '' 501 -''] \<and>
   length (logged post_root serving) = length (stdout serving) + 2"
  by (simp add: logged_other access_line_def error_line_def unsupported_def new_handler_sel
      py_str_501 py_repr_POST)

text \<open>
  C4. When the environment has no variable \<open>PORT\<close>, loading the module resolves the port
  to 8080, and the one port the process then asks the kernel to bind is 8080. When port
  8080 can be bound, the server binds it and listens on it: the process reaches
  \<open>serve_forever\<close> with \<open>PORT\<close> 8080 and its socket on port 8080, after reading the
  variable, creating the socket, binding 8080 and listening.
\<close>

theorem default_port:
  "environ w ''PORT'' = None \<Longrightarrow>
     (\<exists>p. module_init w = Inr p \<and> PORT p = 8080) \<and>
     (\<exists>ev. calls (main w rs) =
            trace w @ [Environ_get ''PORT'', Socket_create, Socket_bind 8080, ev]) \<and>
     (refused w 8080 = None \<longrightarrow>
        (\<exists>p. main w rs = Serving p \<and> PORT p = 8080 \<and> server_port p = Some 8080 \<and>
             trace p = trace w @
               [Environ_get ''PORT'', Socket_create, Socket_bind 8080, Socket_listen]))"
proof (intro conjI impI)
  assume a: "environ w ''PORT'' = None"
  then have i: "module_init w = Inr (loaded w 8080)"
    by (rule module_init_absent)
  then show "\<exists>p. module_init w = Inr p \<and> PORT p = 8080"
    by (simp add: loaded_sel)
  from run_server_frame(2) [of rs "loaded w 8080"] calls_main_loaded [OF i, of rs]
  show "\<exists>ev. calls (main w rs) =
            trace w @ [Environ_get ''PORT'', Socket_create, Socket_bind 8080, ev]"
    by (auto simp add: loaded_sel)
  assume "refused w 8080 = None"
  with main_free [of w 8080 rs] i
  show "\<exists>p. main w rs = Serving p \<and> PORT p = 8080 \<and> server_port p = Some 8080 \<and>
             trace p = trace w @
               [Environ_get ''PORT'', Socket_create, Socket_bind 8080, Socket_listen]"
    by auto
qed

theorem default_port_witness:
  "environ quiet_host ''PORT'' = None \<and> refused quiet_host 8080 = None \<and>
   (\<exists>p. main quiet_host [get_root] = Serving p \<and> PORT p = 8080 \<and> server_port p = Some 8080 \<and>
        trace p = [Environ_get ''PORT'', Socket_create, Socket_bind 8080, Socket_listen])"
  using default_port [of quiet_host "[get_root]"] by simp

text \<open>
  C5. When \<open>PORT\<close> is set to the decimal string of a number \<open>n\<close> from 1 to 65535 and port
  \<open>n\<close> can be bound, the port is resolved to \<open>n\<close> and the server binds \<open>n\<close> and listens on
  it; the only port it binds is \<open>n\<close>, so when \<open>n\<close> is not 8080 the default port is left as
  it was.
\<close>

theorem configured_port:
  "environ w ''PORT'' = Some (py_str n) \<Longrightarrow> 0 < n \<Longrightarrow> n \<le> 65535 \<Longrightarrow> refused w n = None \<Longrightarrow>
     \<exists>p. main w rs = Serving p \<and> PORT p = n \<and> server_port p = Some n \<and>
         trace p = trace w @ [Environ_get ''PORT'', Socket_create, Socket_bind n, Socket_listen] \<and>
         refused p = (refused w)(n \<mapsto> EADDRINUSE) \<and>
         (n \<noteq> 8080 \<longrightarrow> refused p 8080 = refused w 8080)"
proof -
  assume a: "environ w ''PORT'' = Some (py_str n)" "0 < n" "n \<le> 65535" "refused w n = None"
  then have "py_int (PyStr (py_str n)) = Inr n"
    by (intro py_int_py_str) simp_all
  with a(1) have "module_init w = Inr (loaded w n)"
    by (simp add: module_init_present del: py_int.simps)
  then have "\<exists>p. main w rs = Serving p \<and> PORT p = n \<and> server_port p = Some n \<and>
         trace p = trace w @ [Environ_get ''PORT'', Socket_create, Socket_bind n, Socket_listen] \<and>
         refused p = (refused w)(n \<mapsto> EADDRINUSE)"
    using a(2-4) by (rule main_free)
  then show ?thesis by auto
qed

theorem configured_port_witness:
  "py_str 9090 = ''9090'' \<and>
   (\<exists>p. main (quiet_host\<lparr>environ := [''PORT'' \<mapsto> ''9090'']\<rparr>) [get_root] = Serving p \<and>
        PORT p = 9090 \<and> server_port p = Some 9090 \<and>
        trace p = [Environ_get ''PORT'', Socket_create, Socket_bind 9090, Socket_listen] \<and>
        refused p = [9090 \<mapsto> EADDRINUSE] \<and> refused p 8080 = None)"
  using configured_port [of "quiet_host\<lparr>environ := [''PORT'' \<mapsto> ''9090'']\<rparr>" 9090 "[get_root]"]
  by (simp add: py_str_9090)

text \<open>
  C6. When \<open>PORT\<close> is set to a string that is not a valid integer string, \<open>int\<close> raises
  \<open>ValueError\<close>, nothing catches it and the default is not used: the process ends while
  loading the module with exit status 1, having read the variable and made no call to
  the socket layer, and having printed nothing.
\<close>

theorem invalid_port_crashes:
  "environ w ''PORT'' = Some s \<Longrightarrow> \<not> valid_integer_string s \<Longrightarrow>
     py_int (environ_get (environ w) ''PORT'' (PyInt 8080)) = Inl ValueError \<and>
     main w rs = Crash_at_import ValueError (w\<lparr>trace := trace w @ [Environ_get ''PORT'']\<rparr>) \<and>
     exit_status (main w rs) = Some 1 \<and>
     calls (main w rs) = trace w @ [Environ_get ''PORT''] \<and>
     printed (main w rs) = stdout w"
proof -
  assume e: "environ w ''PORT'' = Some s" and "\<not> valid_integer_string s"
  then have r: "py_int (PyStr s) = Inl ValueError" by (intro py_int_rejects)
  with e show ?thesis
    by (simp add: main_def module_init_present environ_get_def del: py_int.simps)
qed

theorem invalid_port_crashes_witness:
  "environ (quiet_host\<lparr>environ := [''PORT'' \<mapsto> ''http'']\<rparr>) ''PORT'' = Some ''http'' \<and>
   \<not> valid_integer_string ''http'' \<and>
   valid_integer_string ''9090'' \<and>
   main (quiet_host\<lparr>environ := [''PORT'' \<mapsto> ''http'']\<rparr>) [get_root] =
     Crash_at_import ValueError
       (quiet_host\<lparr>environ := [''PORT'' \<mapsto> ''http''], trace := [Environ_get ''PORT'']\<rparr>) \<and>
   exit_status (main (quiet_host\<lparr>environ := [''PORT'' \<mapsto> ''http'']\<rparr>) [get_root]) = Some 1 \<and>
   calls (main (quiet_host\<lparr>environ := [''PORT'' \<mapsto> ''http'']\<rparr>) [get_root]) = [Environ_get ''PORT'']"
proof -
  have n: "\<not> valid_integer_string ''http''"
    by (simp add: valid_integer_string_def whitespace_def Py_ISSPACE_def digitpart_def is_digit_def)
  have v: "valid_integer_string ''9090''"
    by (simp add: valid_integer_string_def whitespace_def Py_ISSPACE_def digitpart_def is_digit_def)
  from invalid_port_crashes [of "quiet_host\<lparr>environ := [''PORT'' \<mapsto> ''http'']\<rparr>" "''http''" "[get_root]"] n v
  show ?thesis by simp
qed

text \<open>
  C7. When the module has loaded and the resolved port cannot be bound (it is outside
  0..65535, or the kernel refuses it, as it does for a port that is already bound), the
  exception of the bind is not caught: the process ends at startup with that exception
  (\<open>OverflowError\<close>, or the \<open>OSError\<close> of the kernel's refusal) and exit status 1. It has
  called \<open>bind\<close> once and closed the socket, has not listened, has printed nothing and has
  served no connection.
\<close>

theorem bind_failure_is_fatal:
  "module_init w = Inr p \<Longrightarrow>
   PORT p < 0 \<or> 65535 < PORT p \<or> refused p (if PORT p = 0 then ephemeral p else PORT p) \<noteq> None \<Longrightarrow>
     \<exists>e. main w rs =
           Crash_at_startup e
             (p\<lparr>trace := trace p @ [Socket_create, Socket_bind (PORT p), Socket_close]\<rparr>) \<and>
         (e = OverflowError \<and> (PORT p < 0 \<or> 65535 < PORT p) \<or>
          (\<exists>errno. e = OSError errno \<and> 0 \<le> PORT p \<and> PORT p \<le> 65535 \<and>
             refused p (if PORT p = 0 then ephemeral p else PORT p) = Some errno)) \<and>
         exit_status (main w rs) = Some 1 \<and>
         calls (main w rs) =
           trace w @ [Environ_get ''PORT'', Socket_create, Socket_bind (PORT p), Socket_close] \<and>
         printed (main w rs) = stdout w \<and>
         server_port p = None \<and> connections p = []"
proof -
  assume i: "module_init w = Inr p"
    and u: "PORT p < 0 \<or> 65535 < PORT p \<or> refused p (if PORT p = 0 then ephemeral p else PORT p) \<noteq> None"
  from i obtain n where p: "p = loaded w n" using module_init_Inr by blast
  show ?thesis
  proof (cases "PORT p < 0 \<or> 65535 < PORT p")
    case True
    then have "run_server rs p = Exn OverflowError
        (p\<lparr>trace := trace p @ [Socket_create, Socket_bind (PORT p), Socket_close]\<rparr>)"
      by (rule run_server_overflow)
    with i True show ?thesis
      by (simp add: main_def p loaded_sel)
  next
    case False
    with u obtain errno where r: "refused p (if PORT p = 0 then ephemeral p else PORT p) = Some errno"
      by auto
    from False have "0 \<le> PORT p" "PORT p \<le> 65535" by simp_all
    then have "run_server rs p = Exn (OSError errno)
        (p\<lparr>trace := trace p @ [Socket_create, Socket_bind (PORT p), Socket_close]\<rparr>)"
      using r by (rule run_server_refused)
    with i False r show ?thesis
      by (simp add: main_def p loaded_sel)
  qed
qed

theorem bind_failure_is_fatal_witness:
  "module_init busy_host = Inr second_instance \<and>
   refused second_instance 8080 = Some EADDRINUSE \<and>
   main busy_host [get_root] =
     Crash_at_startup (OSError EADDRINUSE)
       (second_instance\<lparr>trace :=
          [Environ_get ''PORT'', Socket_create, Socket_bind 8080, Socket_close]\<rparr>) \<and>
   exit_status (main busy_host [get_root]) = Some 1 \<and>
   printed (main busy_host [get_root]) = []"
proof -
  have i: "module_init busy_host = Inr second_instance"
    by (simp add: module_init_absent loaded_def)
  from bind_failure_is_fatal [OF i, of "[get_root]"] i show ?thesis
    by auto
qed

text \<open>
  C9. The environment is read exactly once, as the first thing the process does, and only
  for \<open>PORT\<close>; whenever the module has loaded, the global \<open>PORT\<close> of the final state is the
  value resolved then; and starting the server, serving any list of requests, handling
  one connection and handling one request all leave \<open>PORT\<close> as it was.
\<close>

theorem port_is_read_once_and_kept:
  "(\<exists>rest. calls (main w rs) = trace w @ Environ_get ''PORT'' # rest \<and>
           (\<forall>k. Environ_get k \<notin> set rest)) \<and>
   (\<forall>q e. main w rs = Serving q \<or> main w rs = Crash_at_startup e q \<longrightarrow>
          py_int (environ_get (environ w) ''PORT'' (PyInt 8080)) = Inr (PORT q)) \<and>
   PORT (state_of (run_server rs p)) = PORT p \<and>
   PORT (serve_forever rs p) = PORT p \<and>
   PORT (finish_request r p) = PORT p \<and>
   PORT (snd (state_of (handle_one_request (h, p)))) = PORT p"
proof (intro conjI allI impI)
  show "\<exists>rest. calls (main w rs) = trace w @ Environ_get ''PORT'' # rest \<and>
           (\<forall>k. Environ_get k \<notin> set rest)"
  proof (cases "module_init w")
    case (Inl x)
    then obtain e where "x = (e, w\<lparr>trace := trace w @ [Environ_get ''PORT'']\<rparr>)"
      using module_init_Inl by blast
    with Inl show ?thesis by (simp add: main_def)
  next
    case (Inr p0)
    then obtain n where p0: "p0 = loaded w n" using module_init_Inr by blast
    from run_server_frame(2) [of rs p0] obtain ev where
      "trace (state_of (run_server rs p0)) = trace p0 @ [Socket_create, Socket_bind (PORT p0), ev]"
      "ev = Socket_close \<or> ev = Socket_listen" by blast
    with Inr p0 show ?thesis
      by (cases "run_server rs (loaded w n)") (auto simp add: main_def loaded_sel)
  qed
next
  fix q e
  assume m: "main w rs = Serving q \<or> main w rs = Crash_at_startup e q"
  then obtain p0 where i: "module_init w = Inr p0"
    by (cases "module_init w") (auto simp add: main_def split: prod.splits)
  then obtain n where p0: "p0 = loaded w n"
    and n: "py_int (environ_get (environ w) ''PORT'' (PyInt 8080)) = Inr n"
    using module_init_Inr by blast
  have "PORT (state_of (run_server rs p0)) = n"
    by (simp add: run_server_frame(1) p0 loaded_sel)
  with m i have "PORT q = n"
    by (cases "run_server rs p0") (auto simp add: main_def)
  with n show "py_int (environ_get (environ w) ''PORT'' (PyInt 8080)) = Inr (PORT q)"
    by simp
next
  show "PORT (state_of (run_server rs p)) = PORT p" by (rule run_server_frame(1))
  show "PORT (serve_forever rs p) = PORT p" by (simp add: serve_forever_frame)
  show "PORT (finish_request r p) = PORT p" by (rule finish_request_frame(2))
  show "PORT (snd (state_of (handle_one_request (h, p)))) = PORT p"
    by (rule handle_one_request_frame(1))
qed

theorem port_is_read_once_and_kept_witness:
  "calls (main quiet_host [get_root, post_root]) =
     [Environ_get ''PORT'', Socket_create, Socket_bind 8080, Socket_listen] \<and>
   (\<exists>q. main quiet_host [get_root, post_root] = Serving q \<and> PORT q = 8080) \<and>
   py_int (environ_get (environ quiet_host) ''PORT'' (PyInt 8080)) = Inr 8080 \<and>
   PORT (finish_request post_root serving) = 8080 \<and>
   PORT (state_of (run_server [get_root, post_root] serving)) = 8080"
proof -
  have "module_init quiet_host = Inr (loaded quiet_host 8080)"
    by (simp add: module_init_absent)
  then have "\<exists>q. main quiet_host [get_root, post_root] = Serving q \<and> PORT q = 8080 \<and>
      server_port q = Some 8080 \<and>
      trace q = trace quiet_host @ [Environ_get ''PORT'', Socket_create, Socket_bind 8080, Socket_listen] \<and>
      refused q = (refused quiet_host)(8080 \<mapsto> EADDRINUSE)"
    by (rule main_free) simp_all
  then obtain q where q: "main quiet_host [get_root, post_root] = Serving q" "PORT q = 8080"
    "trace q = [Environ_get ''PORT'', Socket_create, Socket_bind 8080, Socket_listen]"
    by auto
  from port_is_read_once_and_kept [where w = quiet_host and rs = "[get_root, post_root]"
      and p = serving and r = post_root]
  have k: "PORT (finish_request post_root serving) = PORT serving"
    "PORT (state_of (run_server [get_root, post_root] serving)) = PORT serving"
    by simp_all
  from q k show ?thesis by (simp add: environ_get_def)
qed

text \<open>
  C10. When \<open>PORT\<close> is set to the empty string, the default is not used, whatever default
  is given: \<open>int\<close> raises \<open>ValueError\<close>, and the process ends while loading the module with
  exit status 1, having read the variable and done nothing else.
\<close>

theorem empty_port_crashes:
  "environ w ''PORT'' = Some [] \<Longrightarrow>
     main w rs = Crash_at_import ValueError (w\<lparr>trace := trace w @ [Environ_get ''PORT'']\<rparr>) \<and>
     exit_status (main w rs) = Some 1 \<and>
     calls (main w rs) = trace w @ [Environ_get ''PORT''] \<and>
     printed (main w rs) = stdout w \<and>
     py_int (environ_get (environ w) ''PORT'' dflt) = Inl ValueError"
  by (simp add: main_def module_init_present py_int_empty environ_get_def del: py_int.simps)

theorem empty_port_crashes_witness:
  "environ (quiet_host\<lparr>environ := [''PORT'' \<mapsto> '''']\<rparr>) ''PORT'' = Some [] \<and>
   main (quiet_host\<lparr>environ := [''PORT'' \<mapsto> '''']\<rparr>) [get_root] =
     Crash_at_import ValueError
       (quiet_host\<lparr>environ := [''PORT'' \<mapsto> ''''], trace := [Environ_get ''PORT'']\<rparr>) \<and>
   exit_status (main (quiet_host\<lparr>environ := [''PORT'' \<mapsto> '''']\<rparr>) [get_root]) = Some 1"
  using empty_port_crashes [of "quiet_host\<lparr>environ := [''PORT'' \<mapsto> '''']\<rparr>" "[get_root]"]
  by simp

end
